theory Spec2Isabelle
  imports Main "HOL-Library.Multiset"
begin

section \<open>Change detection (internal/client/github/change_checker.go)\<close>

text \<open>
  A \<open>keyChecker\<close> takes a slice of keys and answers whether it matches the keys it was
  generated from; a \<open>keyCheckerGen\<close> builds a \<open>keyChecker\<close> from a list of existing
  keys. Go closures are HOL functions.
\<close>

type_synonym keyChecker = "string list \<Rightarrow> bool"
type_synonym keyCheckerGen = "string list \<Rightarrow> keyChecker"

text \<open>
  The interface \<open>ChangeCheckableCollection\<close> has the single method \<open>VersionKeys()\<close>,
  which the only implementation computes from its items without side effect. A value of the
  interface is therefore represented by the key list that \<open>VersionKeys()\<close> returns.
\<close>

type_synonym ChangeCheckableCollection = "string list"

record ChangeChecker =
  genKeyChecker :: keyCheckerGen
  keyChecker :: keyChecker

text \<open>
  \<open>DEFAULT_KEY_CHECKER\<close>: the first loop fills \<open>keyPresentMap\<close> (a
  \<open>map[string]struct{}\<close>) from \<open>keyList\<close>; the returned closure compares lengths and
  then looks every new key up in the map, returning false at the first absent key.
\<close>

fun default_check_loop :: "(string \<rightharpoonup> unit) \<Rightarrow> string list \<Rightarrow> bool" where
  "default_check_loop keyPresentMap [] = True"
| "default_check_loop keyPresentMap (key # rest) =
     (case keyPresentMap key of
        None \<Rightarrow> False
      | Some _ \<Rightarrow> default_check_loop keyPresentMap rest)"

definition DEFAULT_KEY_CHECKER :: keyCheckerGen where
  "DEFAULT_KEY_CHECKER keyList =
     (let keyPresentMap = foldl (\<lambda>m item. m(item \<mapsto> ())) Map.empty keyList
      in (\<lambda>newKeylist.
            if length newKeylist \<noteq> length keyList then False
            else default_check_loop keyPresentMap newKeylist))"

text \<open>
  \<open>SIMPLE_KEY_CHECKER\<close>: after the length check the loop ranges over \<open>keylist\<close> with
  its index and compares \<open>val\<close> with \<open>newKeylist[idx]\<close>. The index is in range whenever
  the loop runs, since the lengths are then equal.
\<close>

fun simple_check_loop :: "nat \<Rightarrow> string list \<Rightarrow> string list \<Rightarrow> bool" where
  "simple_check_loop idx [] newKeylist = True"
| "simple_check_loop idx (val # rest) newKeylist =
     (if val \<noteq> newKeylist ! idx then False
      else simple_check_loop (Suc idx) rest newKeylist)"

definition SIMPLE_KEY_CHECKER :: keyCheckerGen where
  "SIMPLE_KEY_CHECKER keylist =
     (\<lambda>newKeylist.
        if length newKeylist \<noteq> length keylist then False
        else simple_check_loop 0 keylist newKeylist)"

text \<open>\<open>NewChangeChecker\<close>: a nil generator (\<open>None\<close>) selects the default one.\<close>

definition NewChangeChecker ::
  "ChangeCheckableCollection \<Rightarrow> keyCheckerGen option \<Rightarrow> ChangeChecker" where
  "NewChangeChecker items gen =
     (let gen' = (case gen of None \<Rightarrow> DEFAULT_KEY_CHECKER | Some g \<Rightarrow> g)
      in \<lparr> genKeyChecker = gen', keyChecker = gen' items \<rparr>)"

text \<open>
  \<open>HasChanged\<close> is declared with a value receiver, \<open>func (cache ChangeChecker)\<close>: the
  method works on its own copy of the struct. The model returns the verdict together with
  that copy as it stands when the method returns; the assignment to \<open>cache.keyChecker\<close>
  is visible only there. The caller's \<open>ChangeChecker\<close> is the argument, untouched.
\<close>

definition HasChanged ::
  "ChangeChecker \<Rightarrow> ChangeCheckableCollection \<Rightarrow> bool \<times> ChangeChecker" where
  "HasChanged cache items =
     (let keyList = items
      in if keyChecker cache keyList then (False, cache)
         else (True, cache\<lparr>keyChecker := genKeyChecker cache keyList\<rparr>))"

section \<open>Pull request summaries and their collection\<close>

text \<open>
  \<open>time.Time\<close> is represented by the number of nanoseconds between the zero time
  (\<open>time.Time{}\<close>, a midnight in UTC) and the instant, read in UTC; the zero value is 0.
\<close>

type_synonym Time = int

record PullRequestSummary =
  Draft :: bool
  Author :: string
  Title :: string
  Repository :: string
  ID :: string
  ReviewerCount :: int
  Status :: string
  OpenedAt :: Time
  URL :: string

text \<open>Key = [repository]:[prNum]:[status]:[draft], as \<open>fmt.Sprintf("%s:%s:%s:%s", ...)\<close>.\<close>

definition versionKey :: "PullRequestSummary \<Rightarrow> string" where
  "versionKey pr =
     (let draftStr = (if Draft pr then ''Y'' else ''N'')
      in Repository pr @ '':'' @ ID pr @ '':'' @ Status pr @ '':'' @ draftStr)"

text \<open>
  The collection holds a pointer to its \<open>ChangeChecker\<close>; the constructor always sets it,
  so the field is a plain \<open>ChangeChecker\<close>.
\<close>

record PullRequestSummaryCollection =
  dirtyChecker :: ChangeChecker
  Items :: "PullRequestSummary list"

text \<open>\<open>VersionKeys\<close> fills a slice of the same length with the key of every item, in order.\<close>

definition items_VersionKeys :: "PullRequestSummary list \<Rightarrow> string list" where
  "items_VersionKeys its = map versionKey its"

definition VersionKeys :: "PullRequestSummaryCollection \<Rightarrow> string list" where
  "VersionKeys collection = items_VersionKeys (Items collection)"

text \<open>
  \<open>NewPullRequestSummaryCollection\<close> passes the collection, holding only its items so
  far, to \<open>NewChangeChecker\<close> with a nil generator.
\<close>

definition NewPullRequestSummaryCollection ::
  "PullRequestSummary list \<Rightarrow> PullRequestSummaryCollection" where
  "NewPullRequestSummaryCollection its =
     \<lparr> dirtyChecker = NewChangeChecker (items_VersionKeys its) None, Items = its \<rparr>"

text \<open>
  \<open>Update\<close> has a pointer receiver: it replaces \<open>Items\<close> in place and returns the
  verdict of \<open>collection.dirtyChecker.HasChanged(collection)\<close>. The call dereferences the
  pointer and copies the checker into the value receiver, so the copy that
  \<open>HasChanged\<close> modified is dropped and \<open>dirtyChecker\<close> stays as it was.
\<close>

definition Update ::
  "PullRequestSummaryCollection \<Rightarrow> PullRequestSummary list \<Rightarrow>
     bool \<times> PullRequestSummaryCollection" where
  "Update collection latestItems =
     (let collection' = collection\<lparr>Items := latestItems\<rparr>;
          (verdict, _) = HasChanged (dirtyChecker collection') (VersionKeys collection')
      in (verdict, collection'))"

section \<open>The poller (internal/client/github/poller.go)\<close>

text \<open>
  The GitHub client is an external collaborator. What the poller reads from it is kept:
  of an issue the pull-request marker, the repository owner and name, the number, the
  author, the title, the state and the creation time; of a pull request the draft flag and
  the URL. The getters of the client library return zero values for absent fields.
\<close>

record Issue =
  IsPullRequest :: bool
  RepositoryOwnerLogin :: string
  RepositoryName :: string
  Number :: int
  UserLogin :: string
  IssueTitle :: string
  IssueState :: string
  CreatedAt :: Time

record PullRequest =
  GetDraft :: bool
  GetHTMLURL :: string

text \<open>
  The answers of the remote API during one call of \<open>pullRequests\<close>: the current user
  (\<open>Users.Get\<close>), the issue list of a filter (\<open>Issues.List\<close>) and one pull request
  (\<open>PullRequests.Get\<close>), each an error (\<open>Inl\<close>) or a value.
\<close>

record Client =
  UsersGet :: "string + string"
  IssuesList :: "string \<Rightarrow> string + Issue list"
  PullRequestsGet :: "string \<Rightarrow> string \<Rightarrow> int \<Rightarrow> string + PullRequest"

datatype failure = Panic string

definition ASSIGNED_FILTER :: string where
  "ASSIGNED_FILTER = ''all''"

definition CREATED_FILTER :: string where
  "CREATED_FILTER = ''created''"

text \<open>\<open>strconv.Itoa\<close>: the decimal representation of an integer.\<close>

definition digit :: "nat \<Rightarrow> char" where
  "digit d = ''0123456789'' ! d"

fun nat_decimal :: "nat \<Rightarrow> string" where
  "nat_decimal n =
     (if n < 10 then [digit n]
      else nat_decimal (n div 10) @ [digit (n mod 10)])"

declare nat_decimal.simps [simp del]

definition Itoa :: "int \<Rightarrow> string" where
  "Itoa i = (if i < 0 then ''-'' @ nat_decimal (nat (- i)) else nat_decimal (nat i))"

text \<open>\<open>NewPullRequestFromAPI\<close> leaves \<open>ReviewerCount\<close> at its zero value.\<close>

definition NewPullRequestFromAPI :: "Issue \<Rightarrow> PullRequest \<Rightarrow> PullRequestSummary" where
  "NewPullRequestFromAPI issue pr =
     \<lparr> Draft = GetDraft pr,
       Author = UserLogin issue,
       Title = IssueTitle issue,
       Repository = RepositoryName issue,
       ID = Itoa (Number issue),
       ReviewerCount = 0,
       Status = IssueState issue,
       OpenedAt = CreatedAt issue,
       URL = GetHTMLURL pr \<rparr>"

text \<open>
  The enclosed function \<open>get\<close> of \<open>pullRequests\<close>: it panics when the issue list cannot
  be fetched; an issue that is a pull request is appended when its pull request is
  fetched without error, and passed over otherwise.
\<close>

definition get_step ::
  "Client \<Rightarrow> PullRequestSummary list \<Rightarrow> Issue \<Rightarrow> PullRequestSummary list" where
  "get_step client collection issue =
     (if IsPullRequest issue then
        (let owner = RepositoryOwnerLogin issue;
             repo = RepositoryName issue
         in case PullRequestsGet client owner repo (Number issue) of
              Inr pullRequest \<Rightarrow> collection @ [NewPullRequestFromAPI issue pullRequest]
            | Inl err \<Rightarrow> collection)
      else collection)"

definition pullRequests_get ::
  "Client \<Rightarrow> PullRequestSummary list \<Rightarrow> string \<Rightarrow> failure + PullRequestSummary list" where
  "pullRequests_get client collection filterString =
     (case IssuesList client filterString of
        Inl err \<Rightarrow> Inl (Panic err)
      | Inr issues \<Rightarrow> Inr (foldl (get_step client) collection issues))"

definition pullRequests ::
  "Client \<Rightarrow> string \<Rightarrow> string \<Rightarrow>
     failure + (PullRequestSummary list \<times> PullRequestSummary list)" where
  "pullRequests client assignedFilterQuery createdFilterQuery =
     (case pullRequests_get client [] assignedFilterQuery of
        Inl e \<Rightarrow> Inl e
      | Inr assigned \<Rightarrow>
          (case pullRequests_get client [] createdFilterQuery of
             Inl e \<Rightarrow> Inl e
           | Inr created \<Rightarrow> Inr (assigned, created)))"

record Poller =
  LastPolled :: Time
  Username :: string
  AssignedPullRequests :: PullRequestSummaryCollection
  CreatedPullRequests :: PullRequestSummaryCollection

text \<open>\<open>NewPoller\<close>, given the answers of the API and the clock reading.\<close>

definition NewPoller :: "Client \<Rightarrow> Time \<Rightarrow> failure + Poller" where
  "NewPoller client now =
     (case UsersGet client of
        Inl err \<Rightarrow> Inl (Panic err)
      | Inr login \<Rightarrow>
          (case pullRequests client ASSIGNED_FILTER CREATED_FILTER of
             Inl e \<Rightarrow> Inl e
           | Inr (assigned, created) \<Rightarrow>
               Inr \<lparr> LastPolled = now,
                     Username = login,
                     AssignedPullRequests = NewPullRequestSummaryCollection assigned,
                     CreatedPullRequests = NewPullRequestSummaryCollection created \<rparr>))"

text \<open>
  What is sent on the two channels of \<open>PollerNotificationChannels\<close>. Both channels are
  unbuffered and one goroutine sends on them, so the sends of a run form a sequence.
\<close>

datatype Notification = LatestPollTimestamp Time | NewDataAvailable

text \<open>
  One pass through the timer branch of the loop of \<open>Poll\<close>: the poller after it, the
  notifications sent during it in order, and the panic that ended it, if any. The lock
  held around the two updates keeps other goroutines away and computes nothing.
\<close>

definition poll_tick ::
  "Client \<Rightarrow> Time \<Rightarrow> Poller \<Rightarrow> Poller \<times> Notification list \<times> failure option" where
  "poll_tick client now poller =
     (case pullRequests client ASSIGNED_FILTER CREATED_FILTER of
        Inl e \<Rightarrow> (poller, [], Some e)
      | Inr (assigned, created) \<Rightarrow>
          (let sent = [LatestPollTimestamp now];
               (haveUpdatedAssignations, assignedColl) =
                  Update (AssignedPullRequests poller) assigned;
               (haveUpdatedCreations, createdColl) =
                  Update (CreatedPullRequests poller) created;
               poller' = poller\<lparr>AssignedPullRequests := assignedColl,
                                CreatedPullRequests := createdColl\<rparr>;
               sent' = (if haveUpdatedAssignations \<or> haveUpdatedCreations
                        then sent @ [NewDataAvailable] else sent)
           in (poller', sent', None)))"




section \<open>The terminal interface (internal/pkg/tui)\<close>

subsection \<open>Cells and tables of the widget library\<close>

text \<open>
  The widget library is an external collaborator. A cell is its text with the settings the
  program touches; a colour is the name handed to \<open>tcell.GetColor\<close>, \<open>None\<close> being
  the widget's default. A table is the partial map of the cells set so far with the row
  count, one more than the largest row set; \<open>GetCell\<close> outside the table yields a fresh
  cell that is not stored.
\<close>

datatype Align = AlignLeft | AlignCenter | AlignRight

datatype AttrMask = AttrNone | AttrBold | AttrDim

record TableCell =
  Text :: string
  CellAlign :: Align
  Attributes :: AttrMask
  TextColor :: "string option"
  BackgroundColor :: "string option"
  Expansion :: int
  Reference :: "string option"
  NotSelectable :: bool

definition NewTableCell :: "string \<Rightarrow> TableCell" where
  "NewTableCell text =
     \<lparr> Text = text, CellAlign = AlignLeft, Attributes = AttrNone, TextColor = None,
       BackgroundColor = None, Expansion = 0, Reference = None, NotSelectable = False \<rparr>"

record TviewTable =
  cells :: "nat \<times> nat \<rightharpoonup> TableCell"
  tableRowCount :: nat
  tableTitle :: string

definition NewTviewTable :: TviewTable where
  "NewTviewTable = \<lparr> cells = Map.empty, tableRowCount = 0, tableTitle = [] \<rparr>"

definition SetCell :: "TviewTable \<Rightarrow> nat \<Rightarrow> nat \<Rightarrow> TableCell \<Rightarrow> TviewTable" where
  "SetCell t row column cell =
     t\<lparr>cells := (cells t)((row, column) \<mapsto> cell), tableRowCount := max (tableRowCount t) (Suc row)\<rparr>"

text \<open>
  \<open>table.GetCell(row, column).f(...)\<close>: the setter \<open>f\<close> acts on the stored cell, or on
  a discarded fresh one when there is none.
\<close>

definition modify_cell ::
  "TviewTable \<Rightarrow> nat \<Rightarrow> nat \<Rightarrow> (TableCell \<Rightarrow> TableCell) \<Rightarrow> TviewTable" where
  "modify_cell t row column f =
     (case cells t (row, column) of
        None \<Rightarrow> t
      | Some cell \<Rightarrow> t\<lparr>cells := (cells t)((row, column) \<mapsto> f cell)\<rparr>)"

subsection \<open>Rows of pull requests\<close>

text \<open>
  The clock reading \<open>time.Now()\<close> and the external duration formatter
  (\<open>durafmt.Parse(d).LimitFirstN(3).String()\<close>, of a duration in nanoseconds) are
  inputs of the rendering.
\<close>

record Runtime =
  timeNow :: Time
  durafmt :: "int \<Rightarrow> string"

definition REFERENCE_COLUMN :: nat where
  "REFERENCE_COLUMN = 0"

definition EXPANDING_TABLE_COLUMN_IDX :: nat where
  "EXPANDING_TABLE_COLUMN_IDX = 3"

definition pullRequestColumns :: "string list" where
  "pullRequestColumns =
     [''Repository'', ''ID'', ''Author'', ''Title'', ''Reviewers'', ''Status'', ''Age'']"

definition statusForegroundColours :: "string \<rightharpoonup> string" where
  "statusForegroundColours =
     map_of [(''bad'', ''red''), (''default'', ''yellow''), (''good'', ''green'')]"

definition statusBackgroundColours :: "string \<rightharpoonup> string" where
  "statusBackgroundColours = Map.empty"

text \<open>\<open>strings.ToLower\<close> on the ASCII letters.\<close>

definition ToLower :: "string \<Rightarrow> string" where
  "ToLower s =
     map (\<lambda>c. if (65::nat) \<le> of_char c \<and> of_char c \<le> (90::nat)
              then char_of (of_char c + (32::nat)) else c) s"

definition setReference :: "PullRequestSummary \<Rightarrow> nat \<Rightarrow> TviewTable \<Rightarrow> TviewTable" where
  "setReference pr idx table =
     modify_cell table idx REFERENCE_COLUMN (\<lambda>cell. cell\<lparr>Reference := Some (URL pr)\<rparr>)"

definition statusCell :: "PullRequestSummary \<Rightarrow> TableCell" where
  "statusCell pr =
     (let statusCell = (NewTableCell (Status pr))\<lparr>Attributes := AttrBold, CellAlign := AlignCenter\<rparr>;
          statusKey = ToLower (Status pr);
          statusCell = (case statusForegroundColours statusKey of
                          Some textColour \<Rightarrow> statusCell\<lparr>TextColor := Some textColour\<rparr>
                        | None \<Rightarrow> statusCell)
      in (case statusBackgroundColours statusKey of
            Some backgroundColour \<Rightarrow> statusCell\<lparr>BackgroundColor := Some backgroundColour\<rparr>
          | None \<Rightarrow> statusCell))"

definition reviewerCountCell :: "PullRequestSummary \<Rightarrow> TableCell" where
  "reviewerCountCell pr =
     (let textColour = (if ReviewerCount pr > 0 then ''green'' else ''red'')
      in (NewTableCell (Itoa (ReviewerCount pr)))
           \<lparr>CellAlign := AlignCenter, Attributes := AttrBold, TextColor := Some textColour\<rparr>)"

text \<open>
  \<open>Time.Sub\<close> yields a duration in nanoseconds, a 64-bit integer, and saturates at its
  bounds. \<open>Hours()\<close> and \<open>Seconds()\<close> are floating-point readings of it; their
  comparisons with whole hours and the truncation to whole seconds are taken exactly.
\<close>

definition Sub :: "Time \<Rightarrow> Time \<Rightarrow> int" where
  "Sub t u = max (- (2 ^ 63)) (min (2 ^ 63 - 1) (t - u))"

definition Hour :: int where
  "Hour = 3600 * 10 ^ 9"

definition Second :: int where
  "Second = 10 ^ 9"

definition whole_seconds :: "int \<Rightarrow> int" where
  "whole_seconds d = (if d < 0 then - ((- d) div Second) else d div Second)"

definition prettyPrintDuration :: "Runtime \<Rightarrow> int \<Rightarrow> string" where
  "prettyPrintDuration rt seconds =
     (let reducedDuration = seconds * Second in durafmt rt reducedDuration)"

definition openedAtCell :: "Runtime \<Rightarrow> PullRequestSummary \<Rightarrow> TableCell" where
  "openedAtCell rt pr =
     (let since = Sub (timeNow rt) (OpenedAt pr);
          textColour = (if since \<le> 1 * Hour then ''#00FF00''
                        else if since \<le> 4 * Hour then ''#0000FF''
                        else if since \<le> 8 * Hour then ''#FF0D0E''
                        else ''#FF0000'')
      in (NewTableCell (prettyPrintDuration rt (whole_seconds since)))
           \<lparr>CellAlign := AlignCenter, Attributes := AttrBold, TextColor := Some textColour\<rparr>)"

definition draftRow :: "PullRequestSummary \<Rightarrow> nat \<Rightarrow> TviewTable \<Rightarrow> TviewTable" where
  "draftRow pr idx table =
     (let rowContents =
            [Repository pr, ID pr, Author pr, Title pr, ''-'', ''draft'', ''-'']
      in foldl (\<lambda>tbl (colIdx, colVal).
                  SetCell tbl idx colIdx
                    ((NewTableCell colVal)\<lparr>CellAlign := AlignCenter, Attributes := AttrDim\<rparr>))
           table (enumerate 0 rowContents))"

definition Cells :: "Runtime \<Rightarrow> PullRequestSummary \<Rightarrow> nat \<Rightarrow> TviewTable \<Rightarrow> TviewTable" where
  "Cells rt pr idx table =
     (if Draft pr then setReference pr idx (draftRow pr idx table)
      else
        (let centred = (\<lambda>text. (NewTableCell text)\<lparr>CellAlign := AlignCenter\<rparr>);
             table = SetCell table idx 0 (centred (Repository pr));
             table = SetCell table idx 1 (centred (ID pr));
             table = SetCell table idx 2 (centred (Author pr));
             table = SetCell table idx 3 (centred (Title pr));
             table = SetCell table idx 4 (reviewerCountCell pr);
             table = SetCell table idx 5 (statusCell pr);
             table = SetCell table idx 6 (openedAtCell rt pr)
         in setReference pr idx table))"

text \<open>\<open>PullRequestCollection.PopulateTable\<close>: entity \<open>idx\<close> fills row \<open>idx + 1\<close>.\<close>

definition PopulateTable ::
  "Runtime \<Rightarrow> PullRequestSummary list \<Rightarrow> TviewTable \<Rightarrow> TviewTable" where
  "PopulateTable rt PullReqs table =
     foldl (\<lambda>tbl (idx, pullReq). Cells rt pullReq (idx + 1) tbl) table (enumerate 0 PullReqs)"

subsection \<open>The table, the status bar and the controller\<close>

text \<open>
  The selection and key handlers of a table serve the user's input and take no part in an
  update; the row reference they maintain is kept as a field.
\<close>

record Table =
  Primitive :: TviewTable
  currentRowReference :: string

definition expandColumn :: "Table \<Rightarrow> nat \<Rightarrow> Table" where
  "expandColumn t col =
     (let rowCount = tableRowCount (Primitive t)
      in t\<lparr>Primitive :=
             foldl (\<lambda>tbl rowIdx. modify_cell tbl rowIdx col (\<lambda>cell. cell\<lparr>Expansion := 1\<rparr>))
               (Primitive t) [1 ..< Suc rowCount]\<rparr>)"

text \<open>
  \<open>Table.Update\<close> writes the header row, lets the rows populate the table and expands
  the title column. It removes no cell.
\<close>

definition Table_Update :: "Runtime \<Rightarrow> Table \<Rightarrow> PullRequestSummary list \<Rightarrow> Table" where
  "Table_Update rt t rows =
     (let header = foldl (\<lambda>tbl (idx, title).
                            SetCell tbl 0 idx
                              ((NewTableCell title)
                                 \<lparr>CellAlign := AlignCenter, Attributes := AttrBold,
                                  NotSelectable := True\<rparr>))
                     (Primitive t) (enumerate 0 pullRequestColumns);
          t = t\<lparr>Primitive := PopulateTable rt rows header\<rparr>
      in expandColumn t EXPANDING_TABLE_COLUMN_IDX)"

definition NewTable :: "Runtime \<Rightarrow> string \<Rightarrow> PullRequestSummary list \<Rightarrow> Table" where
  "NewTable rt title rows =
     (let t = \<lparr> Primitive = NewTviewTable\<lparr>tableTitle := title\<rparr>, currentRowReference = [] \<rparr>
      in Table_Update rt t rows)"

text \<open>
  The constants \<open>STATUS_TIMESTAMP_FORMAT\<close> and \<open>STATUS_FORMAT_STR\<close> are a layout and
  a format string; each is represented by the function that \<open>Time.Format\<close>, respectively
  \<open>fmt.Sprintf\<close>, computes from it. The layout \<open>15:04:05\<close> prints the hour, minute
  and second of the day, two digits each; the format string has the verbs \<open>%s\<close>,
  \<open>%d\<close>, \<open>%s\<close>.
\<close>

definition two_digits :: "nat \<Rightarrow> string" where
  "two_digits n = [digit (n div 10), digit (n mod 10)]"

definition STATUS_TIMESTAMP_FORMAT :: "Time \<Rightarrow> string" where
  "STATUS_TIMESTAMP_FORMAT t =
     (let secs = nat ((t div Second) mod 86400)
      in two_digits (secs div 3600) @ '':'' @ two_digits (secs div 60 mod 60) @ '':'' @
         two_digits (secs mod 60))"

definition STATUS_FORMAT_STR :: "string \<Rightarrow> int \<Rightarrow> string \<Rightarrow> string" where
  "STATUS_FORMAT_STR username pollInterval lastSync =
     ''[#AAAAAA]Signed in as [::b]'' @ username @ ''[::-]. Polling at [::b]'' @
     Itoa pollInterval @ ''[::-] minute intervals. (Last synchronised at [::b]'' @
     lastSync @ ''[::-])[-]''"

text \<open>Of the text view of the status bar, its text is kept (\<open>SetText\<close>).\<close>

record StatusBar =
  generator :: "Time \<Rightarrow> string"
  BarText :: string

definition NewStatusBar :: "string \<Rightarrow> int \<Rightarrow> Time \<Rightarrow> StatusBar" where
  "NewStatusBar username pollInterval initialSync =
     (let gen = (\<lambda>lastSync.
            STATUS_FORMAT_STR username pollInterval (STATUS_TIMESTAMP_FORMAT lastSync))
      in \<lparr> generator = gen, BarText = gen initialSync \<rparr>)"

definition StatusBar_Update :: "StatusBar \<Rightarrow> Time \<Rightarrow> StatusBar" where
  "StatusBar_Update sb latestSync = sb\<lparr>BarText := generator sb latestSync\<rparr>"

record Controller =
  assignedPRTable :: Table
  createdPRTable :: Table
  statusBar :: StatusBar

record State =
  GithubUsername :: string
  PollInterval :: int
  Assigned :: "PullRequestSummary list"
  Created :: "PullRequestSummary list"
  LastSync :: Time

definition NewController :: "Runtime \<Rightarrow> State \<Rightarrow> Controller" where
  "NewController rt state =
     \<lparr> assignedPRTable = NewTable rt ''Assigned Pull Requests'' (Assigned state),
       createdPRTable = NewTable rt ''Created Pull Requests'' (Created state),
       statusBar = NewStatusBar (GithubUsername state) (PollInterval state) (LastSync state) \<rparr>"

text \<open>
  \<open>Controller.Update\<close> queues a function on the application; the model is the effect
  of that function when the application runs it.
\<close>

definition Controller_Update :: "Runtime \<Rightarrow> Controller \<Rightarrow> State \<Rightarrow> Controller" where
  "Controller_Update rt tui newState =
     (let tui = (if length (Assigned newState) > 0
                 then tui\<lparr>assignedPRTable :=
                            Table_Update rt (assignedPRTable tui) (Assigned newState)\<rparr>
                 else tui);
          tui = (if length (Created newState) > 0
                 then tui\<lparr>assignedPRTable :=
                            Table_Update rt (assignedPRTable tui) (Created newState)\<rparr>
                 else tui)
      in tui\<lparr>statusBar := StatusBar_Update (statusBar tui) (LastSync newState)\<rparr>)"

subsection \<open>The dispatch of notifications (cmd/tui)\<close>

text \<open>
  The two receiving branches of the loop in \<open>app\<close>: each builds a \<open>State\<close> with only
  some fields set, the others at their zero values, and hands it to the controller.
\<close>

definition zero_State :: State where
  "zero_State =
     \<lparr> GithubUsername = [], PollInterval = 0, Assigned = [], Created = [], LastSync = 0 \<rparr>"

definition dispatch :: "Runtime \<Rightarrow> Poller \<Rightarrow> Controller \<Rightarrow> Notification \<Rightarrow> Controller" where
  "dispatch rt ghPoller tuiController n =
     (case n of
        LatestPollTimestamp latestTimestamp \<Rightarrow>
          Controller_Update rt tuiController (zero_State\<lparr>LastSync := latestTimestamp\<rparr>)
      | NewDataAvailable \<Rightarrow>
          Controller_Update rt tuiController
            (zero_State\<lparr>Assigned := Items (AssignedPullRequests ghPoller),
                         Created := Items (CreatedPullRequests ghPoller)\<rparr>))"

section \<open>Example inputs\<close>

text \<open>
  The entity of the scenario in the specification, \<open>{repo:"a", id:"1", status:"open",
  draft:false}\<close>, its merged state, a copy that differs in every field outside the key,
  and an entity of another repository.
\<close>

definition pr_open :: PullRequestSummary where
  "pr_open =
     \<lparr> Draft = False, Author = ''fergus'', Title = ''Fix poller'', Repository = ''a'',
       ID = ''1'', ReviewerCount = 0, Status = ''open'', OpenedAt = 0,
       URL = ''https://example.org/a/1'' \<rparr>"

definition pr_merged :: PullRequestSummary where
  "pr_merged = pr_open\<lparr>Status := ''merged''\<rparr>"


definition pr_b :: PullRequestSummary where
  "pr_b = pr_open\<lparr>Repository := ''b'', ID := ''7''\<rparr>"

text \<open>
  An issue that is a pull request; a client whose fetch of the created pull requests
  fails; a client whose fetches succeed; a poller that started from two empty fetches.
\<close>

definition issue_a1 :: Issue where
  "issue_a1 =
     \<lparr> IsPullRequest = True, RepositoryOwnerLogin = ''fergus'', RepositoryName = ''a'',
       Number = 1, UserLogin = ''fergus'', IssueTitle = ''Fix poller'', IssueState = ''open'',
       CreatedAt = 0 \<rparr>"


definition client_ok :: Client where
  "client_ok =
     \<lparr> UsersGet = Inr ''fergus'',
       IssuesList = (\<lambda>filter. if filter = ''created'' then Inr [] else Inr [issue_a1]),
       PullRequestsGet = (\<lambda>owner repo number.
          Inr \<lparr> GetDraft = False, GetHTMLURL = ''https://example.org/a/1'' \<rparr>) \<rparr>"

definition poller_empty :: Poller where
  "poller_empty =
     \<lparr> LastPolled = 0, Username = ''fergus'',
       AssignedPullRequests = NewPullRequestSummaryCollection [],
       CreatedPullRequests = NewPullRequestSummaryCollection [] \<rparr>"

text \<open>
  The state the interface starts from: no pull requests, last synchronised at 12:34:56.
\<close>

definition state_initial :: State where
  "state_initial =
     zero_State\<lparr>GithubUsername := ''fergus'', PollInterval := 5, LastSync := 45296 * Second\<rparr>"


section \<open>What the two key checkers decide\<close>

lemma dom_keyPresentMap:
  "dom (foldl (\<lambda>m item. m(item \<mapsto> ())) m0 keyList) = dom m0 \<union> set keyList"
  by (induction keyList arbitrary: m0) auto

lemma default_check_loop_iff:
  "default_check_loop m ks \<longleftrightarrow> set ks \<subseteq> dom m"
  by (induction ks) (auto split: option.splits)

lemma DEFAULT_KEY_CHECKER_iff:
  "DEFAULT_KEY_CHECKER A B \<longleftrightarrow> length B = length A \<and> set B \<subseteq> set A"
  by (simp add: DEFAULT_KEY_CHECKER_def Let_def default_check_loop_iff dom_keyPresentMap)


lemma simple_check_loop_iff:
  "simple_check_loop idx ks new \<longleftrightarrow> (\<forall>i < length ks. ks ! i = new ! (idx + i))"
proof (induction ks arbitrary: idx)
  case Nil
  then show ?case by simp
next
  case (Cons k ks)
  show ?case
    by (auto simp: Cons.IH less_Suc_eq_0_disj)
qed

lemma SIMPLE_KEY_CHECKER_iff: "SIMPLE_KEY_CHECKER A B \<longleftrightarrow> B = A"
  by (auto simp: SIMPLE_KEY_CHECKER_def simple_check_loop_iff list_eq_iff_nth_eq)

lemma keyChecker_New_default: "keyChecker (NewChangeChecker A None) = DEFAULT_KEY_CHECKER A"
  by (simp add: NewChangeChecker_def)

lemma keyChecker_New_given: "keyChecker (NewChangeChecker A (Some g)) = g A"
  by (simp add: NewChangeChecker_def)

lemma HasChanged_verdict: "fst (HasChanged cache ks) = (\<not> keyChecker cache ks)"
  by (simp add: HasChanged_def)

text \<open>The copy that \<open>HasChanged\<close> leaves behind does hold the new baseline.\<close>

lemma HasChanged_copy:
  "\<not> keyChecker cache ks \<Longrightarrow>
     keyChecker (snd (HasChanged cache ks)) = genKeyChecker cache ks"
  by (simp add: HasChanged_def)

section \<open>What \<open>Update\<close> returns and keeps\<close>

lemma Update_verdict:
  "fst (Update c xs) = (\<not> keyChecker (dirtyChecker c) (map versionKey xs))"
  by (simp add: Update_def HasChanged_def VersionKeys_def items_VersionKeys_def Let_def
      split: prod.splits)

lemma Update_collection: "snd (Update c xs) = c\<lparr>Items := xs\<rparr>"
  by (simp add: Update_def Let_def split: prod.splits)

text \<open>
  The checker of a collection is the one its constructor made, whatever updates follow:
  every verdict compares against the keys of the first snapshot.
\<close>

lemma Update_keeps_checker: "dirtyChecker (snd (Update c xs)) = dirtyChecker c"
  by (simp add: Update_collection)

lemma Update_verdict_repeats:
  "fst (Update (snd (Update c xs)) ys) = fst (Update c ys)"
  by (simp add: Update_verdict Update_collection)


lemma Update_fresh_to_empty:
  "old \<noteq> [] \<Longrightarrow> fst (Update (NewPullRequestSummaryCollection old) [])"
  by (simp add: Update_verdict NewPullRequestSummaryCollection_def items_VersionKeys_def
      keyChecker_New_default DEFAULT_KEY_CHECKER_iff)

lemma empty_against_empty:
  "\<not> fst (HasChanged (NewChangeChecker [] None) [])"
  "\<not> fst (HasChanged (NewChangeChecker [] (Some SIMPLE_KEY_CHECKER)) [])"
  by (simp_all add: HasChanged_verdict keyChecker_New_default keyChecker_New_given
      DEFAULT_KEY_CHECKER_iff SIMPLE_KEY_CHECKER_iff)


section \<open>The baseline after a change\<close>

text \<open>
  C1. The claim: whenever \<open>HasChanged\<close> reports a change, the baseline of the checker
  advances to the key list just seen, so that the next call with the same key list reports
  no change; after \<open>Update\<close> returns true, an \<open>Update\<close> with an identical collection
  returns false. The program on the scenario of the specification: a collection built from
  the open pull request is updated with the same entity (unchanged), then with the merged
  one (changed), then with the merged one again. The last verdict is "changed" once more:
  the new baseline was stored in the copy of the checker that \<open>HasChanged\<close> received by
  value, and the collection still compares against the keys it was built with.
\<close>

theorem Update_after_change_reports_changed_again:
  "(let c0 = NewPullRequestSummaryCollection [pr_open];
        (r1, c1) = Update c0 [pr_open];
        (r2, c2) = Update c1 [pr_merged];
        (r3, c3) = Update c2 [pr_merged]
    in (r1, r2, r3)) = (False, True, True)"
  by (simp add: Update_def HasChanged_def VersionKeys_def items_VersionKeys_def versionKey_def
      NewPullRequestSummaryCollection_def NewChangeChecker_def DEFAULT_KEY_CHECKER_def
      pr_open_def pr_merged_def Let_def)

section \<open>A failed fetch\<close>



lemma poll_tick_failed:
  "pullRequests client ASSIGNED_FILTER CREATED_FILTER = Inl e \<Longrightarrow>
     poll_tick client now poller = (poller, [], Some e)"
  by (simp add: poll_tick_def)

lemma poll_tick_fetched:
  "pullRequests client ASSIGNED_FILTER CREATED_FILTER = Inr (assigned, created) \<Longrightarrow>
     poll_tick client now poller =
       (poller\<lparr>AssignedPullRequests := snd (Update (AssignedPullRequests poller) assigned),
               CreatedPullRequests := snd (Update (CreatedPullRequests poller) created)\<rparr>,
        LatestPollTimestamp now #
          (if fst (Update (AssignedPullRequests poller) assigned) \<or>
              fst (Update (CreatedPullRequests poller) created)
           then [NewDataAvailable] else []),
        None)"
  by (simp add: poll_tick_def Let_def split: prod.splits)



section \<open>The notifications of a successful tick\<close>

lemma client_ok_fetch:
  "pullRequests client_ok ASSIGNED_FILTER CREATED_FILTER =
     Inr ([NewPullRequestFromAPI issue_a1
             \<lparr> GetDraft = False, GetHTMLURL = ''https://example.org/a/1'' \<rparr>], [])"
  by (simp add: pullRequests_def pullRequests_get_def get_step_def client_ok_def
      ASSIGNED_FILTER_def CREATED_FILTER_def issue_a1_def)

lemma client_ok_sent:
  "fst (snd (poll_tick client_ok 7 poller_empty)) = [LatestPollTimestamp 7, NewDataAvailable]"
  unfolding poll_tick_fetched [OF client_ok_fetch]
  by (simp add: Update_verdict poller_empty_def NewPullRequestSummaryCollection_def
      items_VersionKeys_def keyChecker_New_default DEFAULT_KEY_CHECKER_iff)

text \<open>
  C5. A tick that ends without panic fetched both sets, and it sent the changed-data
  signal if and only if the \<open>Update\<close> of the assigned collection or the \<open>Update\<close> of
  the created collection returned true; the signal occurs at most once among what the tick
  sent.
\<close>

theorem new_data_iff_an_update_changed:
  assumes "poll_tick client now poller = (poller', sent, None)"
  shows "\<exists>assigned created.
           pullRequests client ASSIGNED_FILTER CREATED_FILTER = Inr (assigned, created) \<and>
           (NewDataAvailable \<in> set sent \<longleftrightarrow>
              fst (Update (AssignedPullRequests poller) assigned) \<or>
              fst (Update (CreatedPullRequests poller) created)) \<and>
           count_list sent NewDataAvailable \<le> 1"
proof (cases "pullRequests client ASSIGNED_FILTER CREATED_FILTER")
  case (Inl e)
  with assms show ?thesis by (simp add: poll_tick_failed)
next
  case (Inr fetched)
  obtain assigned created where "fetched = (assigned, created)" by (cases fetched)
  with Inr have p: "pullRequests client ASSIGNED_FILTER CREATED_FILTER = Inr (assigned, created)"
    by simp
  from assms show ?thesis
    unfolding poll_tick_fetched [OF p] using p by auto
qed

theorem new_data_iff_an_update_changed_witness:
  "snd (snd (poll_tick client_ok 7 poller_empty)) = None \<and>
   NewDataAvailable \<in> set (fst (snd (poll_tick client_ok 7 poller_empty))) \<and>
   count_list (fst (snd (poll_tick client_ok 7 poller_empty))) NewDataAvailable \<le> 1"
proof -
  have n: "snd (snd (poll_tick client_ok 7 poller_empty)) = None"
    unfolding poll_tick_fetched [OF client_ok_fetch] by simp
  then have t: "poll_tick client_ok 7 poller_empty =
      (fst (poll_tick client_ok 7 poller_empty),
       fst (snd (poll_tick client_ok 7 poller_empty)), None)"
    by (metis prod.collapse)
  from new_data_iff_an_update_changed [OF t] show ?thesis
    using n client_ok_sent by simp
qed

text \<open>
  C6. In a tick that sends both notifications the timestamp comes first: wherever a
  timestamp and a changed-data signal stand in the sequence the tick sent, the timestamp
  stands before the signal, and the sequence is exactly the timestamp followed by the
  signal.
\<close>

theorem timestamp_before_new_data:
  assumes "poll_tick client now poller = (poller', sent, fail)"
    and "i < length sent" and "j < length sent"
    and "sent ! i = LatestPollTimestamp t" and "sent ! j = NewDataAvailable"
  shows "i < j \<and> sent = [LatestPollTimestamp now, NewDataAvailable]"
proof (cases "pullRequests client ASSIGNED_FILTER CREATED_FILTER")
  case (Inl e)
  with assms show ?thesis by (simp add: poll_tick_failed)
next
  case (Inr fetched)
  obtain assigned created where "fetched = (assigned, created)" by (cases fetched)
  with Inr have p: "pullRequests client ASSIGNED_FILTER CREATED_FILTER = Inr (assigned, created)"
    by simp
  from assms(1) have
    s: "sent = LatestPollTimestamp now #
          (if fst (Update (AssignedPullRequests poller) assigned) \<or>
              fst (Update (CreatedPullRequests poller) created)
           then [NewDataAvailable] else [])"
    unfolding poll_tick_fetched [OF p] by simp
  show ?thesis
  proof (cases "fst (Update (AssignedPullRequests poller) assigned) \<or>
                fst (Update (CreatedPullRequests poller) created)")
    case True
    with s have s2: "sent = [LatestPollTimestamp now, NewDataAvailable]" by simp
    with assms(2-5) have "i = 0" "j = 1"
      by (auto simp: nth_Cons' split: if_splits)
    with s2 show ?thesis by simp
  next
    case False
    with s have "sent = [LatestPollTimestamp now]" by simp
    with assms(3,5) show ?thesis by simp
  qed
qed

theorem timestamp_before_new_data_witness:
  "fst (snd (poll_tick client_ok 7 poller_empty)) ! 0 = LatestPollTimestamp 7 \<and>
   fst (snd (poll_tick client_ok 7 poller_empty)) ! 1 = NewDataAvailable \<and>
   (0::nat) < 1 \<and>
   fst (snd (poll_tick client_ok 7 poller_empty)) = [LatestPollTimestamp 7, NewDataAvailable]"
proof -
  let ?sent = "fst (snd (poll_tick client_ok 7 poller_empty))"
  have t: "poll_tick client_ok 7 poller_empty =
      (fst (poll_tick client_ok 7 poller_empty), ?sent,
       snd (snd (poll_tick client_ok 7 poller_empty)))"
    by simp
  have l: "0 < length ?sent" "1 < length ?sent" by (simp_all add: client_ok_sent)
  have a: "?sent ! 0 = LatestPollTimestamp 7" by (simp add: client_ok_sent)
  have b: "?sent ! 1 = NewDataAvailable" by (simp add: client_ok_sent)
  from timestamp_before_new_data [OF t l a b] show ?thesis using a b by simp
qed

section \<open>The two comparison policies\<close>

text \<open>
  C7. For key lists \<open>A\<close> (the baseline) and \<open>B\<close> (the current keys) of equal length
  with the same multiset of keys, the detector with the default, order-insensitive policy
  reports "unchanged"; and when \<open>A\<close> and \<open>B\<close> moreover differ, that is, differ in order
  only, the detector with the order-sensitive policy reports "changed".
\<close>

theorem policies_on_reordered_keys:
  assumes "length A = length B" and "mset A = mset B"
  shows "\<not> fst (HasChanged (NewChangeChecker A None) B) \<and>
         (A \<noteq> B \<longrightarrow> fst (HasChanged (NewChangeChecker A (Some SIMPLE_KEY_CHECKER)) B))"
proof -
  from assms(2) have "set B = set A" by (metis set_mset_mset)
  with assms(1) have "DEFAULT_KEY_CHECKER A B"
    by (simp add: DEFAULT_KEY_CHECKER_iff)
  then show ?thesis
    by (auto simp: HasChanged_verdict keyChecker_New_default keyChecker_New_given
        SIMPLE_KEY_CHECKER_iff)
qed

theorem policies_on_reordered_keys_witness:
  "length [''k1'', ''k2''] = length [''k2'', ''k1''] \<and>
   mset [''k1'', ''k2''] = mset [''k2'', ''k1''] \<and>
   \<not> fst (HasChanged (NewChangeChecker [''k1'', ''k2''] None) [''k2'', ''k1'']) \<and>
   fst (HasChanged (NewChangeChecker [''k1'', ''k2''] (Some SIMPLE_KEY_CHECKER)) [''k2'', ''k1''])"
proof -
  have m: "mset [''k1'', ''k2''] = mset [''k2'', ''k1'']" by (simp add: add_mset_commute)
  have l: "length [''k1'', ''k2''] = length [''k2'', ''k1'']" by simp
  show ?thesis using policies_on_reordered_keys [OF l m] m by simp
qed

text \<open>
  C10. There are a baseline and a current key list of equal length and with different
  multisets for which the default checker reports "unchanged": the baseline
  \<open>[k1, k1, k2]\<close> against \<open>[k1, k2, k2]\<close>. Membership in the set of baseline keys does
  not count duplicates.
\<close>

theorem default_checker_misses_duplicate_counts:
  "\<exists>A B. length A = length B \<and> mset A \<noteq> mset B \<and>
          \<not> fst (HasChanged (NewChangeChecker A None) B)"
proof (intro exI conjI)
  show "length [''k1'', ''k1'', ''k2''] = length [''k1'', ''k2'', ''k2'']" by simp
  show "mset [''k1'', ''k1'', ''k2''] \<noteq> mset [''k1'', ''k2'', ''k2'']"
  proof
    assume "mset [''k1'', ''k1'', ''k2''] = mset [''k1'', ''k2'', ''k2'']"
    then have "count (mset [''k1'', ''k1'', ''k2'']) ''k1'' =
               count (mset [''k1'', ''k2'', ''k2'']) ''k1''"
      by simp
    then show False by simp
  qed
  show "\<not> fst (HasChanged (NewChangeChecker [''k1'', ''k1'', ''k2''] None)
               [''k1'', ''k2'', ''k2''])"
    by (simp add: HasChanged_def NewChangeChecker_def DEFAULT_KEY_CHECKER_def)
qed

section \<open>From some entities to none\<close>

text \<open>
  C8. The claim: a collection that holds at least one entity returns "changed" when it is
  updated with the empty list, and an empty key list against an empty baseline is
  "unchanged" under either policy. The program on a collection built from an empty fetch:
  the update with one entity reports "changed" and the collection then holds that entity;
  the update with the empty list that follows reports "unchanged". The checker still
  compares against the empty key list of the construction, for the reason given at C1. (A
  collection built from a non-empty list does report "changed" for the empty list, and
  empty against empty is "unchanged" under both policies: \<open>Update_fresh_to_empty\<close>,
  \<open>empty_against_empty\<close>.)
\<close>

theorem Update_to_empty_reports_unchanged:
  "(let c0 = NewPullRequestSummaryCollection [];
        (r1, c1) = Update c0 [pr_open];
        (r2, c2) = Update c1 []
    in (r1, length (Items c1), r2)) = (True, 1, False)"
  by (simp add: Update_def HasChanged_def VersionKeys_def items_VersionKeys_def versionKey_def
      NewPullRequestSummaryCollection_def NewChangeChecker_def DEFAULT_KEY_CHECKER_def
      pr_open_def Let_def)

section \<open>The version key\<close>



section \<open>What the controller writes\<close>

lemma Controller_Update_created:
  "createdPRTable (Controller_Update rt tui newState) = createdPRTable tui"
  by (simp add: Controller_Update_def Let_def)

lemma Controller_Update_statusBar:
  "BarText (statusBar (Controller_Update rt tui newState)) =
     generator (statusBar tui) (LastSync newState)"
  by (simp add: Controller_Update_def Let_def StatusBar_Update_def)

lemma Controller_Update_assigned_absent:
  "Assigned newState = [] \<Longrightarrow> Created newState = [] \<Longrightarrow>
     assignedPRTable (Controller_Update rt tui newState) = assignedPRTable tui"
  by (simp add: Controller_Update_def Let_def)

lemma dispatch_NewDataAvailable_empty:
  "dispatch rt poller_empty tui NewDataAvailable = Controller_Update rt tui zero_State"
  by (simp add: dispatch_def poller_empty_def NewPullRequestSummaryCollection_def
      zero_State_def)

text \<open>
  Which cells an update of a table touches: the header loop writes row 0, the expansion
  writes one column, and the row of an entity shows its repository in column 0.
\<close>

lemma cells_SetCell:
  "cells (SetCell t row column cell) p = (if p = (row, column) then Some cell else cells t p)"
  by (simp add: SetCell_def)

lemma cells_modify_cell:
  "cells (modify_cell t row column f) p =
     (if p = (row, column) then map_option f (cells t p) else cells t p)"
  by (simp add: modify_cell_def split: option.splits)

lemma cells_expand_loop_other:
  "c \<noteq> col \<Longrightarrow>
     cells (foldl (\<lambda>tbl rowIdx. modify_cell tbl rowIdx col f) tbl rs) (r, c) = cells tbl (r, c)"
  by (induction rs arbitrary: tbl) (simp_all add: cells_modify_cell)

lemma cells_expandColumn_other:
  "c \<noteq> col \<Longrightarrow> cells (Primitive (expandColumn t col)) (r, c) = cells (Primitive t) (r, c)"
  by (simp add: expandColumn_def Let_def cells_expand_loop_other)

lemma cells_header_loop:
  "0 < r \<Longrightarrow>
     cells (foldl (\<lambda>tbl (idx, title). SetCell tbl 0 idx (g title)) tbl cols) (r, c) =
       cells tbl (r, c)"
  by (induction cols arbitrary: tbl) (simp_all add: cells_SetCell split: prod.splits)

lemma cells_draftRow_first:
  "map_option Text (cells (draftRow pr idx tbl) (idx, 0)) = Some (Repository pr)"
  by (simp add: draftRow_def Let_def enumerate_eq_zip upt_rec cells_SetCell NewTableCell_def)

lemma Cells_first_column:
  "map_option Text (cells (Cells rt pr idx tbl) (idx, 0)) = Some (Repository pr)"
proof (cases "Draft pr")
  case True
  have "map_option Text (cells (draftRow pr idx tbl) (idx, 0)) = Some (Repository pr)"
    by (rule cells_draftRow_first)
  then show ?thesis using True
    by (auto simp add: Cells_def setReference_def cells_modify_cell REFERENCE_COLUMN_def)
next
  case False
  then show ?thesis
    by (simp add: Cells_def setReference_def cells_modify_cell REFERENCE_COLUMN_def Let_def
        cells_SetCell NewTableCell_def)
qed

lemma Table_Update_single_first_column:
  "map_option Text (cells (Primitive (Table_Update rt t [pr])) (1, 0)) = Some (Repository pr)"
proof -
  have "(0::nat) \<noteq> EXPANDING_TABLE_COLUMN_IDX" by (simp add: EXPANDING_TABLE_COLUMN_IDX_def)
  then show ?thesis
    using Cells_first_column [of rt pr "Suc 0"]
    by (simp add: Table_Update_def Let_def cells_expandColumn_other PopulateTable_def)
qed

lemma Table_Update_empty_data_rows:
  "0 < r \<Longrightarrow> c \<noteq> EXPANDING_TABLE_COLUMN_IDX \<Longrightarrow>
     cells (Primitive (Table_Update rt t [])) (r, c) = cells (Primitive t) (r, c)"
  by (simp add: Table_Update_def Let_def cells_expandColumn_other PopulateTable_def
      cells_header_loop)

lemma NewTable_empty_first_row:
  "cells (Primitive (NewTable rt title [])) (1, 0) = None"
proof -
  have "(0::nat) \<noteq> EXPANDING_TABLE_COLUMN_IDX" by (simp add: EXPANDING_TABLE_COLUMN_IDX_def)
  then show ?thesis
    by (simp add: NewTable_def Let_def Table_Update_empty_data_rows NewTviewTable_def)
qed

lemma Controller_Update_assigned_both:
  "Assigned newState \<noteq> [] \<Longrightarrow> Created newState \<noteq> [] \<Longrightarrow>
     assignedPRTable (Controller_Update rt tui newState) =
       Table_Update rt (Table_Update rt (assignedPRTable tui) (Assigned newState)) (Created newState)"
  by (simp add: Controller_Update_def Let_def)

lemma Controller_Update_assigned_created_only:
  "Assigned newState = [] \<Longrightarrow> Created newState \<noteq> [] \<Longrightarrow>
     assignedPRTable (Controller_Update rt tui newState) =
       Table_Update rt (assignedPRTable tui) (Created newState)"
  by (simp add: Controller_Update_def Let_def)

lemma status_bar_initial:
  "BarText (statusBar (NewController rt state_initial)) = STATUS_FORMAT_STR ''fergus'' 5 ''12:34:56''"
  by (simp add: NewController_def NewStatusBar_def STATUS_TIMESTAMP_FORMAT_def
      two_digits_def digit_def state_initial_def zero_State_def Second_def Let_def)

lemma status_bar_zero:
  "generator (statusBar (NewController rt state_initial)) 0 = STATUS_FORMAT_STR ''fergus'' 5 ''00:00:00''"
  by (simp add: NewController_def NewStatusBar_def STATUS_TIMESTAMP_FORMAT_def
      two_digits_def digit_def state_initial_def zero_State_def Second_def Let_def)

lemma STATUS_FORMAT_STR_inject:
  "STATUS_FORMAT_STR u n a = STATUS_FORMAT_STR u n b \<longleftrightarrow> a = b"
  by (simp add: STATUS_FORMAT_STR_def)

text \<open>
  C3. The claim: on a changed-data signal the contents of the assigned collection go to
  the assigned table and the contents of the created collection go to the created table,
  each table written once. The program, on a controller started without pull requests and
  a state carrying one assigned entity (repository \<open>a\<close>) and one created entity
  (repository \<open>b\<close>): the created table is what it was, with no first data row, and the
  first data row of the assigned table shows the created entity. The second branch of
  \<open>Controller.Update\<close> writes \<open>newState.Created\<close> to \<open>assignedPRTable\<close>.
\<close>

theorem Controller_Update_writes_created_to_assigned:
  "(let tui = NewController rt state_initial;
        tui' = Controller_Update rt tui (zero_State\<lparr>Assigned := [pr_open], Created := [pr_b]\<rparr>)
    in createdPRTable tui' = createdPRTable tui \<and>
       cells (Primitive (createdPRTable tui')) (1, 0) = None \<and>
       map_option Text (cells (Primitive (assignedPRTable tui')) (1, 0)) =
         Some (Repository pr_b) \<and>
       Repository pr_b \<noteq> Repository pr_open)"
proof -
  let ?tui = "NewController rt state_initial"
  let ?st = "zero_State\<lparr>Assigned := [pr_open], Created := [pr_b]\<rparr>"
  have a: "Assigned ?st = [pr_open]" and c: "Created ?st = [pr_b]" by simp_all
  have 1: "createdPRTable (Controller_Update rt ?tui ?st) = createdPRTable ?tui"
    by (rule Controller_Update_created)
  have 2: "cells (Primitive (createdPRTable ?tui)) (1, 0) = None"
    using NewTable_empty_first_row [of rt]
    by (simp add: NewController_def state_initial_def zero_State_def)
  have "assignedPRTable (Controller_Update rt ?tui ?st) =
          Table_Update rt (Table_Update rt (assignedPRTable ?tui) [pr_open]) [pr_b]"
    using Controller_Update_assigned_both [of ?st rt ?tui] by simp
  then have 3: "map_option Text
        (cells (Primitive (assignedPRTable (Controller_Update rt ?tui ?st))) (1, 0)) =
      Some (Repository pr_b)"
    by (simp only: Table_Update_single_first_column)
  have 4: "Repository pr_b \<noteq> Repository pr_open"
    by (simp add: pr_b_def pr_open_def)
  from 1 2 3 4 show ?thesis by (simp add: Let_def)
qed

text \<open>
  C4. The claim: a field of the state that is absent (an empty list, the zero time) leaves
  its render target as it is. The program, on a controller whose status bar shows
  12:34:56: the state with every field absent, which is also the state the dispatch of a
  changed-data signal builds from two empty collections, sets the status bar to the zero
  time, 00:00:00; and a state with no assigned list and one created entity changes the
  first data row of the assigned table. \<open>Controller.Update\<close> guards the two lists with
  \<open>len(...) > 0\<close> and calls \<open>statusBar.Update(newState.LastSync)\<close> unguarded.
\<close>

theorem absent_LastSync_overwrites_status_bar:
  "(let tui = NewController rt state_initial;
        tui' = Controller_Update rt tui zero_State;
        tui'' = Controller_Update rt tui (zero_State\<lparr>Created := [pr_b]\<rparr>)
    in BarText (statusBar tui) = STATUS_FORMAT_STR ''fergus'' 5 ''12:34:56'' \<and>
       BarText (statusBar tui') = STATUS_FORMAT_STR ''fergus'' 5 ''00:00:00'' \<and>
       BarText (statusBar tui') \<noteq> BarText (statusBar tui) \<and>
       dispatch rt poller_empty tui NewDataAvailable = tui' \<and>
       cells (Primitive (assignedPRTable tui)) (1, 0) = None \<and>
       map_option Text (cells (Primitive (assignedPRTable tui'')) (1, 0)) =
         Some (Repository pr_b))"
proof -
  let ?tui = "NewController rt state_initial"
  let ?st = "zero_State\<lparr>Created := [pr_b]\<rparr>"
  have z: "LastSync zero_State = 0" by (simp add: zero_State_def)
  have a: "Assigned ?st = []" and c: "Created ?st = [pr_b]" by (simp_all add: zero_State_def)
  have 1: "BarText (statusBar ?tui) = STATUS_FORMAT_STR ''fergus'' 5 ''12:34:56''"
    by (rule status_bar_initial)
  have 2: "BarText (statusBar (Controller_Update rt ?tui zero_State)) =
             STATUS_FORMAT_STR ''fergus'' 5 ''00:00:00''"
    by (simp add: Controller_Update_statusBar z status_bar_zero)
  have 3: "BarText (statusBar (Controller_Update rt ?tui zero_State)) \<noteq> BarText (statusBar ?tui)"
    unfolding 1 2 by (simp add: STATUS_FORMAT_STR_inject)
  have 4: "dispatch rt poller_empty ?tui NewDataAvailable = Controller_Update rt ?tui zero_State"
    by (rule dispatch_NewDataAvailable_empty)
  have 5: "cells (Primitive (assignedPRTable ?tui)) (1, 0) = None"
    using NewTable_empty_first_row [of rt]
    by (simp add: NewController_def state_initial_def zero_State_def)
  have "assignedPRTable (Controller_Update rt ?tui ?st) =
          Table_Update rt (assignedPRTable ?tui) [pr_b]"
    using Controller_Update_assigned_created_only [of ?st rt ?tui] a c by simp
  then have 6: "map_option Text
        (cells (Primitive (assignedPRTable (Controller_Update rt ?tui ?st))) (1, 0)) =
      Some (Repository pr_b)"
    by (simp only: Table_Update_single_first_column)
  from 1 2 3 4 5 6 show ?thesis by (simp add: Let_def)
qed

end
